theory Spec2Isabelle
  imports Complex_Main
begin

section \<open>JavaScript values and the operations the handlers apply to them\<close>

text \<open>
  The handlers of \<^verbatim>\<open>src/index.ts\<close> work on the value that \<^verbatim>\<open>response.json()\<close> returns: an
  arbitrary JSON value. An object is kept as the list of its own properties in enumeration
  order, each key once. A number is kept as the rational it denotes, and arithmetic on numbers is exact.
  How a number that is not a small integer prints, how \<^verbatim>\<open>toLocaleString\<close> and \<^verbatim>\<open>toFixed\<close>
  print a number, and which keys a value inherits from its prototype, depend on the host
  and are taken from a \<open>host\<close> record. A string is kept as its UTF-8 bytes. The value
  \<^verbatim>\<open>undefined\<close> is \<open>None\<close>.
\<close>

datatype json =
    JNull
  | JBool bool
  | JNum rat
  | JStr string
  | JArr "json list"
  | JObj "(string \<times> json) list"

type_synonym jsval = "json option"

text \<open>
  A thrown value: an \<^verbatim>\<open>Error\<close> with its message (the handlers' own \<^verbatim>\<open>new Error(...)\<close>, the
  runtime's \<^verbatim>\<open>TypeError\<close>, the rejections of \<^verbatim>\<open>fetch\<close> and \<^verbatim>\<open>response.json()\<close>), or a value
  that is not an instance of \<^verbatim>\<open>Error\<close> and has no \<^verbatim>\<open>message\<close>, should the upstream library
  ever reject with one. The messages of the runtime's own errors are those of Node.js.
\<close>

datatype thrown = Error string | NonError

record host =
  numberToString :: "rat \<Rightarrow> string"
  toLocaleString :: "rat \<Rightarrow> string"
  toFixed :: "nat \<Rightarrow> rat \<Rightarrow> string"
  inheritedKey :: "json \<Rightarrow> string \<Rightarrow> bool"

definition andThen :: "thrown + 'a \<Rightarrow> ('a \<Rightarrow> thrown + 'b) \<Rightarrow> thrown + 'b" where
  "andThen m f = (case m of Inl e \<Rightarrow> Inl e | Inr x \<Rightarrow> f x)"

fun mapM :: "('a \<Rightarrow> thrown + 'b) \<Rightarrow> 'a list \<Rightarrow> thrown + 'b list" where
  "mapM f [] = Inr []"
| "mapM f (x # xs) =
     (case f x of
        Inl e \<Rightarrow> Inl e
      | Inr y \<Rightarrow> (case mapM f xs of Inl e \<Rightarrow> Inl e | Inr ys \<Rightarrow> Inr (y # ys)))"

definition nl :: string where
  "nl = [CHR 0x0A]"

definition quote :: string where
  "quote = [CHR 0x27]"

definition dquote :: string where
  "dquote = [CHR 0x22]"

text \<open>The emoji and the bullet of the report texts, as UTF-8.\<close>

definition emojiPackage :: string where
  "emojiPackage = [CHR 0xF0, CHR 0x9F, CHR 0x93, CHR 0xA6]"

definition emojiCross :: string where
  "emojiCross = [CHR 0xE2, CHR 0x9D, CHR 0x8C]"

definition emojiCheck :: string where
  "emojiCheck = [CHR 0xE2, CHR 0x9C, CHR 0x85]"

definition emojiChart :: string where
  "emojiChart = [CHR 0xF0, CHR 0x9F, CHR 0x93, CHR 0x88]"

definition emojiBars :: string where
  "emojiBars = [CHR 0xF0, CHR 0x9F, CHR 0x93, CHR 0x8A]"

definition emojiSearch :: string where
  "emojiSearch = [CHR 0xF0, CHR 0x9F, CHR 0x94, CHR 0x8D]"

definition emojiBook :: string where
  "emojiBook = [CHR 0xF0, CHR 0x9F, CHR 0x93, CHR 0x96]"

definition bullet :: string where
  "bullet = [CHR 0xE2, CHR 0x80, CHR 0xA2]"

text \<open>\<^verbatim>\<open>Array.prototype.join\<close> on an array of strings.\<close>

fun join :: "string \<Rightarrow> string list \<Rightarrow> string" where
  "join sep [] = []"
| "join sep [x] = x"
| "join sep (x # y # ys) = x @ sep @ join sep (y # ys)"

text \<open>Decimal digits of a natural number.\<close>

fun digits :: "nat \<Rightarrow> string" where
  "digits n =
     (if n < 10 then [''0123456789'' ! n]
      else digits (n div 10) @ [''0123456789'' ! (n mod 10)])"

declare digits.simps [simp del]

text \<open>
  \<^verbatim>\<open>Number.prototype.toString\<close>: an integer below \<open>10^21\<close> in magnitude prints as its decimal
  digits; every other number prints as the host says.
\<close>

definition Number_toString :: "host \<Rightarrow> rat \<Rightarrow> string" where
  "Number_toString h r =
     (if of_int \<lfloor>r\<rfloor> = r \<and> \<bar>r\<bar> < 10 ^ 21
      then (if r < 0 then ''-'' else '''') @ digits (nat \<bar>\<lfloor>r\<rfloor>\<bar>)
      else numberToString h r)"

text \<open>
  \<^verbatim>\<open>ToString\<close>, as a template literal applies it. A parsed JSON object has no callable
  property of its own: with an own property \<^verbatim>\<open>toString\<close> the conversion finds nothing to
  call that returns a primitive and throws; without one it reaches
  \<^verbatim>\<open>Object.prototype.toString\<close>. An array prints as its elements joined by commas, \<^verbatim>\<open>null\<close>
  elements as the empty string.
\<close>

fun ToString :: "host \<Rightarrow> json \<Rightarrow> thrown + string"
  and ToStringElems :: "host \<Rightarrow> json list \<Rightarrow> thrown + string list" where
  "ToString h JNull = Inr ''null''"
| "ToString h (JBool b) = Inr (if b then ''true'' else ''false'')"
| "ToString h (JNum r) = Inr (Number_toString h r)"
| "ToString h (JStr s) = Inr s"
| "ToString h (JArr xs) =
     (case ToStringElems h xs of Inl e \<Rightarrow> Inl e | Inr ss \<Rightarrow> Inr (join '','' ss))"
| "ToString h (JObj kvs) =
     (if map_of kvs ''toString'' = None then Inr ''[object Object]''
      else Inl (Error ''Cannot convert object to primitive value''))"
| "ToStringElems h [] = Inr []"
| "ToStringElems h (x # xs) =
     (case (if x = JNull then Inr [] else ToString h x) of
        Inl e \<Rightarrow> Inl e
      | Inr s \<Rightarrow> (case ToStringElems h xs of Inl e \<Rightarrow> Inl e | Inr ss \<Rightarrow> Inr (s # ss)))"

fun ToStringV :: "host \<Rightarrow> jsval \<Rightarrow> thrown + string" where
  "ToStringV h None = Inr ''undefined''"
| "ToStringV h (Some v) = ToString h v"

text \<open>Truthiness, and \<^verbatim>\<open>a || b\<close>.\<close>

fun truthy :: "jsval \<Rightarrow> bool" where
  "truthy None = False"
| "truthy (Some JNull) = False"
| "truthy (Some (JBool b)) = b"
| "truthy (Some (JNum r)) = (r \<noteq> 0)"
| "truthy (Some (JStr s)) = (s \<noteq> [])"
| "truthy (Some (JArr xs)) = True"
| "truthy (Some (JObj kvs)) = True"

definition orElse :: "jsval \<Rightarrow> jsval \<Rightarrow> jsval" where
  "orElse a b = (if truthy a then a else b)"

text \<open>
  Property access \<^verbatim>\<open>v.k\<close> and \<^verbatim>\<open>v?.k\<close>, for the keys the handlers read: none of them is a
  property of a prototype, so only an object's own properties answer.
\<close>

fun getProp :: "jsval \<Rightarrow> string \<Rightarrow> thrown + jsval" where
  "getProp None k =
     Inl (Error (''Cannot read properties of undefined (reading '' @ quote @ k @ quote @ '')''))"
| "getProp (Some JNull) k =
     Inl (Error (''Cannot read properties of null (reading '' @ quote @ k @ quote @ '')''))"
| "getProp (Some (JObj kvs)) k = Inr (map_of kvs k)"
| "getProp (Some v) k = Inr None"

fun optChain :: "jsval \<Rightarrow> string \<Rightarrow> jsval" where
  "optChain (Some (JObj kvs)) k = map_of kvs k"
| "optChain v k = None"

text \<open>
  \<^verbatim>\<open>Object.keys\<close>: the own enumerable keys; the indices of an array or of a string (one per
  UTF-16 code unit); nothing for a number or a boolean; a \<^verbatim>\<open>TypeError\<close> for \<^verbatim>\<open>undefined\<close> and
  \<^verbatim>\<open>null\<close>.
\<close>

definition utf16Length :: "string \<Rightarrow> nat" where
  "utf16Length s =
     length (filter (\<lambda>c. \<not> (128 \<le> (of_char c :: nat) \<and> (of_char c :: nat) < 192)) s)
     + length (filter (\<lambda>c. 240 \<le> (of_char c :: nat)) s)"

fun Object_keys :: "jsval \<Rightarrow> thrown + string list" where
  "Object_keys None = Inl (Error ''Cannot convert undefined or null to object'')"
| "Object_keys (Some JNull) = Inl (Error ''Cannot convert undefined or null to object'')"
| "Object_keys (Some (JObj kvs)) = Inr (map fst kvs)"
| "Object_keys (Some (JArr xs)) = Inr (map digits [0..<length xs])"
| "Object_keys (Some (JStr s)) = Inr (map digits [0..<utf16Length s])"
| "Object_keys (Some v) = Inr []"

text \<open>\<^verbatim>\<open>error instanceof Error ? error.message : 'Unknown error'\<close>\<close>

fun errorMessage :: "thrown \<Rightarrow> string" where
  "errorMessage (Error m) = m"
| "errorMessage NonError = ''Unknown error''"

section \<open>The network\<close>

text \<open>
  \<^verbatim>\<open>fetch\<close> either rejects or resolves to a response; \<^verbatim>\<open>response.ok\<close> is a status from 200
  to 299; \<^verbatim>\<open>response.json()\<close> either rejects or resolves to the parsed body. The upstream
  is a function of the request: during one call, equal requests are answered equally.
  Every handler returns the requests it issued beside its outcome; the requests of the
  items of one call are listed item by item, though the runtime interleaves them.
\<close>

record request =
  url :: string
  headers :: "(string \<times> string) list"

record response =
  status :: nat
  statusText :: string
  json_body :: "thrown + json"

definition ok :: "response \<Rightarrow> bool" where
  "ok r = (200 \<le> status r \<and> status r < 300)"

type_synonym network = "request \<Rightarrow> thrown + response"

record CallToolResult =
  content :: "string list"
  isError :: bool

text \<open>
  Each entry of \<open>content\<close> stands for \<^verbatim>\<open>{ type: 'text', text }\<close>. A handler whose promise
  rejects returns \<open>Inl\<close>.
\<close>

type_synonym outcome = "request list \<times> (thrown + CallToolResult)"

definition sentinelHeaders :: "(string \<times> string) list" where
  "sentinelHeaders = [(''Accept'', ''application/json''), (''User-Agent'', ''NPM-Sentinel-MCP'')]"

section \<open>Type guards\<close>

text \<open>
  \<^verbatim>\<open>isNpmPackageInfo\<close>: the value is an object or an array (\<^verbatim>\<open>typeof data === 'object'\<close> and
  not \<^verbatim>\<open>null\<close>), and its \<^verbatim>\<open>maintainers\<close>, when it has any, are an array of objects with
  a string \<^verbatim>\<open>name\<close> and a string \<^verbatim>\<open>email\<close>.
\<close>

fun isMaintainer :: "json \<Rightarrow> bool" where
  "isMaintainer (JObj kvs) =
     (case (map_of kvs ''name'', map_of kvs ''email'') of
        (Some (JStr n), Some (JStr e)) \<Rightarrow> True
      | _ \<Rightarrow> False)"
| "isMaintainer v = False"

fun isNpmPackageInfo :: "json \<Rightarrow> bool" where
  "isNpmPackageInfo (JArr xs) = True"
| "isNpmPackageInfo (JObj kvs) =
     (case map_of kvs ''maintainers'' of
        None \<Rightarrow> True
      | Some (JArr ms) \<Rightarrow> list_all isMaintainer ms
      | Some v \<Rightarrow> False)"
| "isNpmPackageInfo v = False"

section \<open>handleNpmVersions\<close>

datatype versions_result =
    VSuccess string "string list" jsval
  | VFailure string string

definition versionsRequest :: "string \<Rightarrow> request" where
  "versionsRequest pkg = \<lparr>url = ''https://registry.npmjs.org/'' @ pkg, headers = sentinelHeaders\<rparr>"

definition versionsTry :: "network \<Rightarrow> string \<Rightarrow> thrown + versions_result" where
  "versionsTry net pkg =
     andThen (net (versionsRequest pkg)) (\<lambda>response.
       if \<not> ok response
       then Inl (Error (''Failed to fetch package info: '' @ statusText response))
       else andThen (json_body response) (\<lambda>data.
         if \<not> isNpmPackageInfo data then Inl (Error ''Invalid package info format'')
         else andThen (getProp (Some data) ''versions'') (\<lambda>vs.
           andThen (Object_keys vs) (\<lambda>versions.
             andThen (getProp (Some data) ''dist-tags'') (\<lambda>tags.
               Inr (VSuccess pkg versions (optChain tags ''latest'')))))))"

definition versionsItem :: "network \<Rightarrow> string \<Rightarrow> request list \<times> versions_result" where
  "versionsItem net pkg =
     ([versionsRequest pkg],
      case versionsTry net pkg of
        Inl error \<Rightarrow> VFailure pkg (errorMessage error)
      | Inr result \<Rightarrow> result)"

fun versionsText :: "host \<Rightarrow> versions_result \<Rightarrow> thrown + string" where
  "versionsText h (VSuccess name versions latest) =
     andThen (ToStringV h latest) (\<lambda>l.
       Inr (emojiPackage @ '' '' @ name @ '':'' @ nl
            @ ''Latest version: '' @ l @ nl
            @ ''Available versions: '' @ join '', '' versions))"
| "versionsText h (VFailure name error) =
     Inr (emojiCross @ '' Error fetching '' @ name @ '': '' @ error)"

definition handleNpmVersions :: "host \<Rightarrow> network \<Rightarrow> string list \<Rightarrow> outcome" where
  "handleNpmVersions h net packages =
     (let items = map (versionsItem net) packages;
          results = map snd items
      in (concat (map fst items),
          andThen (mapM (versionsText h) results) (\<lambda>content.
            Inr \<lparr>content = content, isError = False\<rparr>)))"

section \<open>handleNpmLatest\<close>

text \<open>The fields of a success are \<^verbatim>\<open>name, version, description, author, license, homepage\<close>.\<close>

datatype latest_result =
    LSuccess string jsval jsval jsval jsval jsval
  | LFailure string string

definition latestRequest :: "string \<Rightarrow> request" where
  "latestRequest pkg =
     \<lparr>url = ''https://registry.npmjs.org/'' @ pkg @ ''/latest'', headers = sentinelHeaders\<rparr>"

definition latestTry :: "network \<Rightarrow> string \<Rightarrow> thrown + latest_result" where
  "latestTry net pkg =
     andThen (net (latestRequest pkg)) (\<lambda>response.
       if \<not> ok response
       then Inl (Error (''Failed to fetch latest version: '' @ statusText response))
       else andThen (json_body response) (\<lambda>data.
         andThen (getProp (Some data) ''version'') (\<lambda>version.
         andThen (getProp (Some data) ''description'') (\<lambda>description.
         andThen (getProp (Some data) ''author'') (\<lambda>author.
         andThen (getProp (Some data) ''license'') (\<lambda>license.
         andThen (getProp (Some data) ''homepage'') (\<lambda>homepage.
           Inr (LSuccess pkg version description (optChain author ''name'')
                  license homepage))))))))"

definition latestItem :: "network \<Rightarrow> string \<Rightarrow> request list \<times> latest_result" where
  "latestItem net pkg =
     ([latestRequest pkg],
      case latestTry net pkg of
        Inl err \<Rightarrow> LFailure pkg (errorMessage err)
      | Inr result \<Rightarrow> result)"

fun latestText :: "host \<Rightarrow> latest_result \<Rightarrow> thrown + string" where
  "latestText h (LSuccess name version description author license homepage) =
     andThen (ToStringV h version) (\<lambda>v.
     andThen (ToStringV h (orElse description (Some (JStr ''No description available'')))) (\<lambda>d.
     andThen (ToStringV h (orElse author (Some (JStr ''Unknown'')))) (\<lambda>a.
     andThen (ToStringV h (orElse license (Some (JStr ''Unknown'')))) (\<lambda>l.
     andThen (ToStringV h (orElse homepage (Some (JStr ''Not specified'')))) (\<lambda>p.
       Inr (emojiPackage @ '' Latest version of '' @ name @ '':'' @ nl
            @ ''Version: '' @ v @ nl
            @ ''Description: '' @ d @ nl
            @ ''Author: '' @ a @ nl
            @ ''License: '' @ l @ nl
            @ ''Homepage: '' @ p @ nl
            @ ''---''))))))"
| "latestText h (LFailure name error) =
     Inr (emojiCross @ '' Error fetching latest version for '' @ name @ '': '' @ error)"

definition handleNpmLatest :: "host \<Rightarrow> network \<Rightarrow> string list \<Rightarrow> outcome" where
  "handleNpmLatest h net packages =
     (let items = map (latestItem net) packages;
          results = map snd items
      in (concat (map fst items),
          andThen (mapM (latestText h) results) (\<lambda>content.
            Inr \<lparr>content = content, isError = False\<rparr>)))"

section \<open>handleNpmDeps\<close>

text \<open>
  \<^verbatim>\<open>NpmPackageDataSchema.parse\<close>: the value is a plain object, \<^verbatim>\<open>name\<close> and \<^verbatim>\<open>version\<close> are
  strings, each optional field is absent or of its type (a record of strings is a plain
  object all of whose values are strings), and unknown keys are ignored.
\<close>

record NpmPackageData =
  pd_name :: string
  pd_version :: string
  pd_description :: "string option"
  pd_license :: "string option"
  pd_dependencies :: "(string \<times> string) list option"
  pd_devDependencies :: "(string \<times> string) list option"
  pd_peerDependencies :: "(string \<times> string) list option"
  pd_types :: "string option"
  pd_typings :: "string option"

fun zString :: "jsval \<Rightarrow> string option" where
  "zString (Some (JStr s)) = Some s"
| "zString v = None"

fun zOptionalString :: "jsval \<Rightarrow> string option option" where
  "zOptionalString None = Some None"
| "zOptionalString (Some (JStr s)) = Some (Some s)"
| "zOptionalString v = None"

fun zStringEntries :: "(string \<times> json) list \<Rightarrow> (string \<times> string) list option" where
  "zStringEntries [] = Some []"
| "zStringEntries ((k, JStr s) # kvs) =
     (case zStringEntries kvs of None \<Rightarrow> None | Some r \<Rightarrow> Some ((k, s) # r))"
| "zStringEntries (kv # kvs) = None"

fun zOptionalRecord :: "jsval \<Rightarrow> (string \<times> string) list option option" where
  "zOptionalRecord None = Some None"
| "zOptionalRecord (Some (JObj kvs)) =
     (case zStringEntries kvs of None \<Rightarrow> None | Some r \<Rightarrow> Some (Some r))"
| "zOptionalRecord v = None"

fun parseNpmPackageData :: "json \<Rightarrow> NpmPackageData option" where
  "parseNpmPackageData (JObj kvs) =
     (case (zString (map_of kvs ''name''), zString (map_of kvs ''version''),
            zOptionalString (map_of kvs ''description''),
            zOptionalString (map_of kvs ''license''),
            zOptionalRecord (map_of kvs ''dependencies''),
            zOptionalRecord (map_of kvs ''devDependencies''),
            zOptionalRecord (map_of kvs ''peerDependencies''),
            zOptionalString (map_of kvs ''types''),
            zOptionalString (map_of kvs ''typings'')) of
        (Some n, Some v, Some d, Some l, Some deps, Some dev, Some peer, Some t, Some ty) \<Rightarrow>
          Some \<lparr>pd_name = n, pd_version = v, pd_description = d, pd_license = l,
                pd_dependencies = deps, pd_devDependencies = dev, pd_peerDependencies = peer,
                pd_types = t, pd_typings = ty\<rparr>
      | _ \<Rightarrow> None)"
| "parseNpmPackageData v = None"

definition isNpmPackageData :: "json \<Rightarrow> bool" where
  "isNpmPackageData data = (parseNpmPackageData data \<noteq> None)"

text \<open>
  A result of the fan-out is \<^verbatim>\<open>{ name, error }\<close> or
  \<^verbatim>\<open>{ name, version, dependencies, devDependencies, peerDependencies }\<close>.
\<close>

datatype deps_result =
    DError string string
  | DDeps string string "(string \<times> string) list" "(string \<times> string) list"
      "(string \<times> string) list"

definition orEmpty :: "(string \<times> string) list option \<Rightarrow> (string \<times> string) list" where
  "orEmpty r = (case r of None \<Rightarrow> [] | Some kvs \<Rightarrow> kvs)"

definition depsTry :: "network \<Rightarrow> string \<Rightarrow> thrown + deps_result" where
  "depsTry net pkg =
     andThen (net (latestRequest pkg)) (\<lambda>response.
       if \<not> ok response
       then Inr (DError pkg (''Failed to fetch package info: '' @ statusText response))
       else andThen (json_body response) (\<lambda>rawData.
         case parseNpmPackageData rawData of
           None \<Rightarrow> Inr (DError pkg ''Invalid package data received'')
         | Some d \<Rightarrow>
             Inr (DDeps pkg (pd_version d) (orEmpty (pd_dependencies d))
                    (orEmpty (pd_devDependencies d)) (orEmpty (pd_peerDependencies d)))))"

definition depsItem :: "network \<Rightarrow> string \<Rightarrow> request list \<times> deps_result" where
  "depsItem net pkg =
     ([latestRequest pkg],
      case depsTry net pkg of
        Inl error \<Rightarrow> DError pkg (errorMessage error)
      | Inr result \<Rightarrow> result)"

definition depLines :: "string \<Rightarrow> (string \<times> string) list \<Rightarrow> string" where
  "depLines title deps =
     (if length deps > 0
      then title @ nl
           @ concat (map (\<lambda>(dep, version). bullet @ '' '' @ dep @ '': '' @ version @ nl) deps)
           @ nl
      else [])"

fun depsText :: "deps_result \<Rightarrow> string" where
  "depsText (DError name error) = emojiCross @ '' '' @ name @ '': '' @ error @ nl @ nl"
| "depsText (DDeps name version dependencies devDependencies peerDependencies) =
     emojiPackage @ '' Dependencies for '' @ name @ ''@'' @ version @ nl @ nl
     @ depLines ''Dependencies:'' dependencies
     @ depLines ''Dev Dependencies:'' devDependencies
     @ depLines ''Peer Dependencies:'' peerDependencies
     @ ''---'' @ nl @ nl"

definition handleNpmDeps :: "network \<Rightarrow> string list \<Rightarrow> outcome" where
  "handleNpmDeps net packages =
     (if length packages = 0
      then ([], Inr \<lparr>content = [''Error fetching dependencies: ''
                                  @ errorMessage (Error ''No package names provided'')],
                     isError = True\<rparr>)
      else (let items = map (depsItem net) packages;
                results = map snd items
            in (concat (map fst items),
                Inr \<lparr>content = [concat (map depsText results)], isError = False\<rparr>)))"

section \<open>handleNpmTypes\<close>

text \<open>\<^verbatim>\<open>String.prototype.replace\<close> with a string pattern: the first occurrence only.\<close>

fun replaceFirst :: "string \<Rightarrow> string \<Rightarrow> string \<Rightarrow> string" where
  "replaceFirst pat rep [] = (if pat = [] then rep else [])"
| "replaceFirst pat rep (c # cs) =
     (if take (length pat) (c # cs) = pat then rep @ drop (length pat) (c # cs)
      else c # replaceFirst pat rep cs)"

text \<open>\<^verbatim>\<open>(error as Error).message\<close> inside a template literal.\<close>

fun asErrorMessage :: "thrown \<Rightarrow> string" where
  "asErrorMessage (Error m) = m"
| "asErrorMessage NonError = ''undefined''"

definition typesPackage :: "string \<Rightarrow> string" where
  "typesPackage pkg = ''@types/'' @ replaceFirst ''/'' ''__'' (replaceFirst ''@'' [] pkg)"

definition typesRequest :: "string \<Rightarrow> request" where
  "typesRequest pkg =
     \<lparr>url = ''https://registry.npmjs.org/'' @ typesPackage pkg @ ''/latest'',
      headers = sentinelHeaders\<rparr>"

text \<open>
  The item's work up to its second request: the text so far and \<^verbatim>\<open>hasTypes\<close>.
\<close>

definition typesFirst :: "host \<Rightarrow> network \<Rightarrow> string \<Rightarrow> thrown + string \<times> bool" where
  "typesFirst h net pkg =
     andThen (net (latestRequest pkg)) (\<lambda>response.
       if \<not> ok response
       then Inl (Error (''Failed to fetch package info: '' @ statusText response))
       else andThen (json_body response) (\<lambda>data.
         andThen (getProp (Some data) ''version'') (\<lambda>version.
         andThen (ToStringV h version) (\<lambda>v.
         andThen (getProp (Some data) ''types'') (\<lambda>types.
         andThen (getProp (Some data) ''typings'') (\<lambda>typings.
           let text = emojiPackage @ '' TypeScript support for '' @ pkg @ ''@'' @ v @ nl;
               hasTypes = truthy (orElse types typings)
           in if hasTypes
              then andThen (ToStringV h (orElse types typings)) (\<lambda>path.
                     Inr (text @ emojiCheck @ '' Package includes built-in TypeScript types'' @ nl
                          @ ''Types path: '' @ path @ nl, hasTypes))
              else Inr (text, hasTypes)))))))"

text \<open>
  The rest of the item: the request for the \<^verbatim>\<open>@types\<close> package, whose rejection is caught
  and turned into \<^verbatim>\<open>null\<close>.
\<close>

definition typesSecond :: "host \<Rightarrow> network \<Rightarrow> string \<Rightarrow> string \<times> bool \<Rightarrow> thrown + string" where
  "typesSecond h net pkg tb =
     (let text = fst tb; hasTypes = snd tb;
          typesResponse = (case net (typesRequest pkg) of Inl e \<Rightarrow> None | Inr r \<Rightarrow> Some r)
      in case typesResponse of
           None \<Rightarrow>
             Inr (if \<not> hasTypes
                  then text @ emojiCross @ '' No TypeScript type definitions found'' else text)
         | Some r \<Rightarrow>
             if ok r
             then andThen (json_body r) (\<lambda>typesData.
                  andThen (getProp (Some typesData) ''version'') (\<lambda>version.
                  andThen (ToStringV h version) (\<lambda>v.
                    Inr (text @ emojiPackage @ '' DefinitelyTyped package available: ''
                         @ typesPackage pkg @ ''@'' @ v @ nl
                         @ ''Install with: npm install -D '' @ typesPackage pkg))))
             else Inr (if \<not> hasTypes
                       then text @ emojiCross @ '' No TypeScript type definitions found''
                       else text))"

definition typesItem ::
  "host \<Rightarrow> network \<Rightarrow> string \<Rightarrow> request list \<times> (thrown + string \<times> string)" where
  "typesItem h net pkg =
     (case typesFirst h net pkg of
        Inl e \<Rightarrow> ([latestRequest pkg], Inl e)
      | Inr tb \<Rightarrow>
          ([latestRequest pkg, typesRequest pkg],
           andThen (typesSecond h net pkg tb) (\<lambda>text. Inr (pkg, text))))"

text \<open>
  \<^verbatim>\<open>Promise.all\<close> resolves to the results in input order, or rejects when an item rejects;
  the items that have not settled go on and their requests are still issued. When several
  items reject, the runtime reports the one that rejects first in time; here it is the
  leftmost.
\<close>

definition promiseAll :: "(thrown + 'a) list \<Rightarrow> thrown + 'a list" where
  "promiseAll ps = mapM (\<lambda>p. p) ps"

text \<open>
  The report: each item's text and a blank line, and the delimiter after every item but
  the last (the results are distinct objects, so \<^verbatim>\<open>results.indexOf(result)\<close> is the item's
  position).
\<close>

fun typesReport :: "(string \<times> string) list \<Rightarrow> string" where
  "typesReport [] = []"
| "typesReport [r] = snd r @ nl @ nl"
| "typesReport (r # r' # rs) = snd r @ nl @ nl @ ''---'' @ nl @ nl @ typesReport (r' # rs)"

definition handleNpmTypes :: "host \<Rightarrow> network \<Rightarrow> string list \<Rightarrow> outcome" where
  "handleNpmTypes h net packages =
     (let items = map (typesItem h net) packages
      in (concat (map fst items),
          case promiseAll (map snd items) of
            Inl error \<Rightarrow>
              Inr \<lparr>content = [''Error checking TypeScript types: '' @ asErrorMessage error],
                   isError = True\<rparr>
          | Inr results \<Rightarrow> Inr \<lparr>content = [typesReport results], isError = False\<rparr>))"

section \<open>handleNpmCompare\<close>

text \<open>
  \<^verbatim>\<open>NpmDownloadsDataSchema.parse\<close>: a plain object with a number \<^verbatim>\<open>downloads\<close> and strings
  \<^verbatim>\<open>start\<close>, \<^verbatim>\<open>end\<close> and \<^verbatim>\<open>package\<close>.
\<close>

fun zNumber :: "jsval \<Rightarrow> rat option" where
  "zNumber (Some (JNum r)) = Some r"
| "zNumber v = None"

fun parseNpmDownloadsData :: "json \<Rightarrow> rat option" where
  "parseNpmDownloadsData (JObj kvs) =
     (case (zNumber (map_of kvs ''downloads''), zString (map_of kvs ''start''),
            zString (map_of kvs ''end''), zString (map_of kvs ''package'')) of
        (Some d, Some s, Some e, Some p) \<Rightarrow> Some d
      | _ \<Rightarrow> None)"
| "parseNpmDownloadsData v = None"

definition isNpmDownloadsData :: "json \<Rightarrow> bool" where
  "isNpmDownloadsData data = (parseNpmDownloadsData data \<noteq> None)"

definition compareInfoRequest :: "string \<Rightarrow> request" where
  "compareInfoRequest pkg =
     \<lparr>url = ''https://registry.npmjs.org/'' @ pkg @ ''/latest'', headers = []\<rparr>"

definition compareDownloadsRequest :: "string \<Rightarrow> request" where
  "compareDownloadsRequest pkg =
     \<lparr>url = ''https://api.npmjs.org/downloads/point/last-month/'' @ pkg, headers = []\<rparr>"

text \<open>
  A row of the comparison: \<^verbatim>\<open>name, version, description, downloads, license,
  dependencies\<close> (the description is collected and never printed). Both requests of an item
  are issued before either is awaited; when both reject, the rejection of the first is the
  one reported here.
\<close>

record compare_row =
  cr_name :: string
  cr_version :: string
  cr_description :: "string option"
  cr_downloads :: rat
  cr_license :: "string option"
  cr_dependencies :: nat

definition compareTry :: "network \<Rightarrow> string \<Rightarrow> thrown + compare_row" where
  "compareTry net pkg =
     andThen (net (compareInfoRequest pkg)) (\<lambda>infoRes.
     andThen (net (compareDownloadsRequest pkg)) (\<lambda>downloadsRes.
       if \<not> ok infoRes \<or> \<not> ok downloadsRes
       then Inl (Error (''Failed to fetch data for '' @ pkg))
       else andThen (json_body infoRes) (\<lambda>info.
            andThen (json_body downloadsRes) (\<lambda>downloads.
              case (parseNpmPackageData info, parseNpmDownloadsData downloads) of
                (Some i, Some d) \<Rightarrow>
                  Inr \<lparr>cr_name = pkg, cr_version = pd_version i,
                       cr_description = pd_description i, cr_downloads = d,
                       cr_license = pd_license i,
                       cr_dependencies = length (orEmpty (pd_dependencies i))\<rparr>
              | _ \<Rightarrow> Inl (Error (''Invalid response format for '' @ pkg))))))"

definition compareItem :: "network \<Rightarrow> string \<Rightarrow> request list \<times> (thrown + compare_row)" where
  "compareItem net pkg =
     ([compareInfoRequest pkg, compareDownloadsRequest pkg], compareTry net pkg)"

definition compareLine :: "host \<Rightarrow> compare_row \<Rightarrow> string" where
  "compareLine h r =
     cr_name r @ '' | '' @ cr_version r @ '' | '' @ toLocaleString h (cr_downloads r)
     @ '' | '' @ Number_toString h (of_nat (cr_dependencies r))
     @ '' | '' @ (case cr_license r of None \<Rightarrow> ''N/A'' | Some l \<Rightarrow> if l = [] then ''N/A'' else l)
     @ nl"

definition handleNpmCompare :: "host \<Rightarrow> network \<Rightarrow> string list \<Rightarrow> outcome" where
  "handleNpmCompare h net packages =
     (let items = map (compareItem net) packages
      in (concat (map fst items),
          case promiseAll (map snd items) of
            Inl error \<Rightarrow>
              Inr \<lparr>content = [''Error comparing packages: '' @ asErrorMessage error],
                   isError = True\<rparr>
          | Inr results \<Rightarrow>
              Inr \<lparr>content =
                     [emojiBars @ '' Package Comparison'' @ nl @ nl
                      @ ''Package | Version | Monthly Downloads | Dependencies | License'' @ nl
                      @ ''--------|---------|------------------|--------------|--------'' @ nl
                      @ concat (map (compareLine h) results)],
                   isError = False\<rparr>))"

section \<open>handleNpmPackageReadme\<close>

text \<open>
  \<^verbatim>\<open>rawData.versions?.[latestVersion]\<close> reads a property under a key that the upstream
  chooses. The value read is a property of the value's own (a JSON value), a value that
  is no JSON value but is truthy and has no \<^verbatim>\<open>readme\<close> (a method or an object inherited from
  the prototype, a character of a string), or \<^verbatim>\<open>undefined\<close>.
\<close>

datatype member = Own json | Foreign | Missing

fun ownMember :: "json \<Rightarrow> string \<Rightarrow> member" where
  "ownMember (JObj kvs) k = (case map_of kvs k of Some v \<Rightarrow> Own v | None \<Rightarrow> Missing)"
| "ownMember (JArr xs) k =
     (if k = ''length'' then Own (JNum (of_nat (length xs)))
      else case find (\<lambda>i. digits i = k) [0..<length xs] of
             Some i \<Rightarrow> Own (xs ! i)
           | None \<Rightarrow> Missing)"
| "ownMember (JStr s) k =
     (if k = ''length'' then Own (JNum (of_nat (utf16Length s)))
      else if k \<in> set (map digits [0..<utf16Length s]) then Foreign
      else Missing)"
| "ownMember v k = Missing"

definition computedMember :: "host \<Rightarrow> json \<Rightarrow> string \<Rightarrow> member" where
  "computedMember h v k =
     (case ownMember v k of
        Missing \<Rightarrow> if inheritedKey h v k then Foreign else Missing
      | m \<Rightarrow> m)"

fun truthyMember :: "member \<Rightarrow> bool" where
  "truthyMember (Own v) = truthy (Some v)"
| "truthyMember Foreign = True"
| "truthyMember Missing = False"

fun memberReadme :: "member \<Rightarrow> thrown + jsval" where
  "memberReadme (Own v) = getProp (Some v) ''readme''"
| "memberReadme Foreign = Inr None"
| "memberReadme Missing = getProp None ''readme''"

definition readmeRequest :: "string \<Rightarrow> request" where
  "readmeRequest pkg = \<lparr>url = ''https://registry.npmjs.org/'' @ pkg, headers = []\<rparr>"

definition noLatest :: thrown where
  "noLatest = Error ''No latest version found''"

text \<open>A result is \<^verbatim>\<open>{ name, version, text }\<close>.\<close>

definition readmeTry :: "host \<Rightarrow> network \<Rightarrow> string \<Rightarrow> thrown + string \<times> json \<times> json" where
  "readmeTry h net pkg =
     andThen (net (readmeRequest pkg)) (\<lambda>response.
       if \<not> ok response
       then Inl (Error (''Failed to fetch package info: '' @ statusText response))
       else andThen (json_body response) (\<lambda>rawData.
         if \<not> isNpmPackageInfo rawData then Inl (Error ''Invalid package info data received'')
         else andThen (getProp (Some rawData) ''dist-tags'') (\<lambda>tags.
           case optChain tags ''latest'' of
             None \<Rightarrow> Inl noLatest
           | Some latestVersion \<Rightarrow>
               if \<not> truthy (Some latestVersion) then Inl noLatest
               else andThen (getProp (Some rawData) ''versions'') (\<lambda>versions.
                 case versions of
                   None \<Rightarrow> Inl noLatest
                 | Some JNull \<Rightarrow> Inl noLatest
                 | Some vs \<Rightarrow>
                     andThen (ToString h latestVersion) (\<lambda>key.
                       let m = computedMember h vs key
                       in if \<not> truthyMember m then Inl noLatest
                          else andThen (memberReadme m) (\<lambda>r1.
                               andThen (getProp (Some rawData) ''readme'') (\<lambda>r2.
                                 case orElse r1 r2 of
                                   None \<Rightarrow> Inr (pkg, latestVersion, JStr ''No README found'')
                                 | Some readme \<Rightarrow>
                                     if \<not> truthy (Some readme)
                                     then Inr (pkg, latestVersion, JStr ''No README found'')
                                     else Inr (pkg, latestVersion, readme))))))))"

definition readmeItem ::
  "host \<Rightarrow> network \<Rightarrow> string \<Rightarrow> request list \<times> (thrown + string \<times> json \<times> json)" where
  "readmeItem h net pkg = ([readmeRequest pkg], readmeTry h net pkg)"

definition rule80 :: string where
  "rule80 = replicate 80 (CHR ''='')"

definition readmeSection :: "host \<Rightarrow> string \<times> json \<times> json \<Rightarrow> thrown + string" where
  "readmeSection h r =
     andThen (ToString h (fst (snd r))) (\<lambda>version.
     andThen (ToString h (snd (snd r))) (\<lambda>text.
       Inr (rule80 @ nl
            @ emojiBook @ '' '' @ fst r @ ''@'' @ version @ nl
            @ rule80 @ nl @ nl
            @ text)))"

definition handleNpmPackageReadme :: "host \<Rightarrow> network \<Rightarrow> string list \<Rightarrow> outcome" where
  "handleNpmPackageReadme h net packages =
     (let items = map (readmeItem h net) packages
      in (concat (map fst items),
          case andThen (promiseAll (map snd items)) (mapM (readmeSection h)) of
            Inl error \<Rightarrow>
              Inr \<lparr>content = [''Error fetching READMEs: '' @ errorMessage error],
                   isError = True\<rparr>
          | Inr sections \<Rightarrow>
              Inr \<lparr>content = [join (nl @ nl @ rule80 @ nl @ nl) sections],
                   isError = False\<rparr>))"

section \<open>handleNpmSearch\<close>

text \<open>
  \<^verbatim>\<open>NpmSearchResultSchema.safeParse\<close>: the fields the schema names, each of its type, an
  optional field absent or of its type; the parsed data keeps what the report reads.
\<close>

record search_links =
  sl_npm :: "string option"
  sl_homepage :: "string option"
  sl_repository :: "string option"

record search_package =
  sp_name :: string
  sp_version :: string
  sp_description :: "string option"
  sp_keywords :: "string list option"
  sp_links :: "search_links option"

record search_object =
  so_package :: search_package
  so_final :: rat

fun zStrings :: "json list \<Rightarrow> string list option" where
  "zStrings [] = Some []"
| "zStrings (JStr s # vs) = (case zStrings vs of None \<Rightarrow> None | Some r \<Rightarrow> Some (s # r))"
| "zStrings (v # vs) = None"

fun zOptionalStrings :: "jsval \<Rightarrow> string list option option" where
  "zOptionalStrings None = Some None"
| "zOptionalStrings (Some (JArr vs)) =
     (case zStrings vs of None \<Rightarrow> None | Some r \<Rightarrow> Some (Some r))"
| "zOptionalStrings v = None"

fun zOptionalPublisher :: "jsval \<Rightarrow> bool" where
  "zOptionalPublisher None = True"
| "zOptionalPublisher (Some (JObj kvs)) = (zString (map_of kvs ''username'') \<noteq> None)"
| "zOptionalPublisher v = False"

fun zOptionalLinks :: "jsval \<Rightarrow> search_links option option" where
  "zOptionalLinks None = Some None"
| "zOptionalLinks (Some (JObj kvs)) =
     (case (zOptionalString (map_of kvs ''npm''), zOptionalString (map_of kvs ''homepage''),
            zOptionalString (map_of kvs ''repository'')) of
        (Some n, Some p, Some r) \<Rightarrow>
          Some (Some \<lparr>sl_npm = n, sl_homepage = p, sl_repository = r\<rparr>)
      | _ \<Rightarrow> None)"
| "zOptionalLinks v = None"

fun parseSearchPackage :: "jsval \<Rightarrow> search_package option" where
  "parseSearchPackage (Some (JObj kvs)) =
     (case (zString (map_of kvs ''name''), zString (map_of kvs ''version''),
            zOptionalString (map_of kvs ''description''),
            zOptionalStrings (map_of kvs ''keywords''),
            zOptionalPublisher (map_of kvs ''publisher''),
            zOptionalLinks (map_of kvs ''links'')) of
        (Some n, Some v, Some d, Some k, True, Some l) \<Rightarrow>
          Some \<lparr>sp_name = n, sp_version = v, sp_description = d, sp_keywords = k,
                sp_links = l\<rparr>
      | _ \<Rightarrow> None)"
| "parseSearchPackage v = None"

fun parseScoreDetail :: "jsval \<Rightarrow> bool" where
  "parseScoreDetail (Some (JObj kvs)) =
     (zNumber (map_of kvs ''quality'') \<noteq> None \<and> zNumber (map_of kvs ''popularity'') \<noteq> None
      \<and> zNumber (map_of kvs ''maintenance'') \<noteq> None)"
| "parseScoreDetail v = False"

fun parseSearchScore :: "jsval \<Rightarrow> rat option" where
  "parseSearchScore (Some (JObj kvs)) =
     (case zNumber (map_of kvs ''final'') of
        Some f \<Rightarrow> if parseScoreDetail (map_of kvs ''detail'') then Some f else None
      | None \<Rightarrow> None)"
| "parseSearchScore v = None"

fun parseSearchObject :: "json \<Rightarrow> search_object option" where
  "parseSearchObject (JObj kvs) =
     (case (parseSearchPackage (map_of kvs ''package''), parseSearchScore (map_of kvs ''score''),
            zNumber (map_of kvs ''searchScore'')) of
        (Some p, Some f, Some s) \<Rightarrow> Some \<lparr>so_package = p, so_final = f\<rparr>
      | _ \<Rightarrow> None)"
| "parseSearchObject v = None"

fun parseSearchObjects :: "json list \<Rightarrow> search_object list option" where
  "parseSearchObjects [] = Some []"
| "parseSearchObjects (v # vs) =
     (case parseSearchObject v of
        None \<Rightarrow> None
      | Some ob \<Rightarrow> (case parseSearchObjects vs of None \<Rightarrow> None | Some r \<Rightarrow> Some (ob # r)))"

fun parseNpmSearchResult :: "json \<Rightarrow> (search_object list \<times> rat) option" where
  "parseNpmSearchResult (JObj kvs) =
     (case (map_of kvs ''objects'', zNumber (map_of kvs ''total'')) of
        (Some (JArr vs), Some found) \<Rightarrow>
          (case parseSearchObjects vs of None \<Rightarrow> None | Some obs \<Rightarrow> Some (obs, found))
      | _ \<Rightarrow> None)"
| "parseNpmSearchResult v = None"

text \<open>
  \<^verbatim>\<open>encodeURIComponent\<close> on the UTF-8 bytes of a well-formed string: every byte but the
  unreserved characters is escaped.
\<close>

definition uriUnreserved :: "char \<Rightarrow> bool" where
  "uriUnreserved c =
     (c \<in> set (''ABCDEFGHIJKLMNOPQRSTUVWXYZabcdefghijklmnopqrstuvwxyz0123456789-_.!~*()''
               @ quote))"

definition encodeURIComponent :: "string \<Rightarrow> string" where
  "encodeURIComponent s =
     concat (map (\<lambda>c. if uriUnreserved c then [c]
                       else [CHR ''%'', ''0123456789ABCDEF'' ! ((of_char c :: nat) div 16),
                             ''0123456789ABCDEF'' ! ((of_char c :: nat) mod 16)]) s)"

text \<open>\<^verbatim>\<open>args.limit || 10\<close>: an omitted limit and the limit 0 are falsy.\<close>

definition searchLimit :: "rat option \<Rightarrow> rat" where
  "searchLimit l = (if truthy (map_option JNum l) then (case l of Some r \<Rightarrow> r | None \<Rightarrow> 10) else 10)"

definition searchRequest :: "host \<Rightarrow> string \<Rightarrow> rat \<Rightarrow> request" where
  "searchRequest h query limit =
     \<lparr>url = ''https://registry.npmjs.org/-/v1/search?text='' @ encodeURIComponent query
            @ ''&size='' @ Number_toString h limit,
      headers = []\<rparr>"

definition searchHeader :: "host \<Rightarrow> string \<Rightarrow> rat \<Rightarrow> rat \<Rightarrow> string" where
  "searchHeader h query found limit =
     emojiSearch @ '' Search results for '' @ dquote @ query @ dquote @ nl
     @ ''Found '' @ toLocaleString h found @ '' packages (showing top ''
     @ Number_toString h limit @ '')'' @ nl @ nl"

definition searchLinks :: "search_links \<Rightarrow> string" where
  "searchLinks l =
     ''Links:'' @ nl
     @ (case sl_npm l of
          Some s \<Rightarrow> if s \<noteq> [] then bullet @ '' NPM: '' @ s @ nl else []
        | None \<Rightarrow> [])
     @ (case sl_homepage l of
          Some s \<Rightarrow> if s \<noteq> [] then bullet @ '' Homepage: '' @ s @ nl else []
        | None \<Rightarrow> [])
     @ (case sl_repository l of
          Some s \<Rightarrow> if s \<noteq> [] then bullet @ '' Repository: '' @ s @ nl else []
        | None \<Rightarrow> [])"

definition searchEntry :: "host \<Rightarrow> search_object \<Rightarrow> string" where
  "searchEntry h ob =
     (let pkg = so_package ob;
          normalizedScore = min 1 (so_final ob / 100);
          finalScore = toFixed h 2 normalizedScore
      in emojiPackage @ '' '' @ sp_name pkg @ ''@'' @ sp_version pkg @ nl
         @ (case sp_description pkg of
              Some d \<Rightarrow> if d \<noteq> [] then d @ nl else []
            | None \<Rightarrow> [])
         @ ''Score: '' @ finalScore @ '' ('' @ toFixed h 0 (normalizedScore * 100) @ ''%)'' @ nl
         @ (case sp_keywords pkg of
              Some ks \<Rightarrow> if length ks > 0 then ''Keywords: '' @ join '', '' ks @ nl else []
            | None \<Rightarrow> [])
         @ (case sp_links pkg of Some l \<Rightarrow> searchLinks l | None \<Rightarrow> [])
         @ nl)"

definition searchTry :: "host \<Rightarrow> network \<Rightarrow> string \<Rightarrow> rat \<Rightarrow> thrown + string" where
  "searchTry h net query limit =
     andThen (net (searchRequest h query limit)) (\<lambda>response.
       if \<not> ok response
       then Inl (Error (''Failed to search packages: '' @ statusText response))
       else andThen (json_body response) (\<lambda>rawData.
         case parseNpmSearchResult rawData of
           None \<Rightarrow> Inl (Error ''Invalid search results data received'')
         | Some (objects, found) \<Rightarrow>
             Inr (searchHeader h query found limit @ concat (map (searchEntry h) objects))))"

definition handleNpmSearch :: "host \<Rightarrow> network \<Rightarrow> string \<Rightarrow> rat option \<Rightarrow> outcome" where
  "handleNpmSearch h net query limitArg =
     (let limit = searchLimit limitArg
      in ([searchRequest h query limit],
          case searchTry h net query limit of
            Inl error \<Rightarrow>
              Inr \<lparr>content = [''Error searching packages: '' @ errorMessage error],
                   isError = True\<rparr>
          | Inr text \<Rightarrow> Inr \<lparr>content = [text], isError = False\<rparr>))"

section \<open>handleNpmTrends\<close>

text \<open>
  The period the handler uses: the argument when it is truthy and one of the three names,
  \<^verbatim>\<open>last-month\<close> otherwise.
\<close>

definition trendsPeriod :: "string option \<Rightarrow> string" where
  "trendsPeriod p =
     (case p of
        None \<Rightarrow> ''last-month''
      | Some s \<Rightarrow>
          if s \<noteq> [] \<and> s \<in> set [''last-week'', ''last-month'', ''last-year''] then s
          else ''last-month'')"

text \<open>The table \<^verbatim>\<open>periodDays\<close>, read at one of its three keys.\<close>

definition periodDays :: "string \<Rightarrow> rat" where
  "periodDays period =
     (if period = ''last-week'' then 7 else if period = ''last-month'' then 30 else 365)"

text \<open>\<^verbatim>\<open>Math.round\<close>: the nearest integer, a tie going up.\<close>

definition Math_round :: "rat \<Rightarrow> int" where
  "Math_round x = \<lfloor>x + 1 / 2\<rfloor>"

datatype trends_result =
    TSuccess string rat
  | TFailure string string

definition trendsRequest :: "string \<Rightarrow> string \<Rightarrow> request" where
  "trendsRequest period pkg =
     \<lparr>url = ''https://api.npmjs.org/downloads/point/'' @ period @ ''/'' @ pkg,
      headers = sentinelHeaders\<rparr>"

definition trendsTry :: "network \<Rightarrow> string \<Rightarrow> string \<Rightarrow> thrown + trends_result" where
  "trendsTry net period pkg =
     andThen (net (trendsRequest period pkg)) (\<lambda>response.
       if \<not> ok response
       then Inr (TFailure pkg (''Failed to fetch download trends: '' @ statusText response))
       else andThen (json_body response) (\<lambda>data.
         case parseNpmDownloadsData data of
           None \<Rightarrow> Inr (TFailure pkg ''Invalid response format from npm downloads API'')
         | Some downloads \<Rightarrow> Inr (TSuccess pkg downloads)))"

definition trendsItem ::
  "network \<Rightarrow> string \<Rightarrow> string \<Rightarrow> request list \<times> (thrown + trends_result)" where
  "trendsItem net period pkg = ([trendsRequest period pkg], trendsTry net period pkg)"

definition averageDaily :: "string \<Rightarrow> rat \<Rightarrow> int" where
  "averageDaily period downloads = Math_round (downloads / periodDays period)"

fun trendsEntry :: "host \<Rightarrow> string \<Rightarrow> trends_result \<Rightarrow> string" where
  "trendsEntry h period (TFailure name error) =
     emojiCross @ '' '' @ name @ '': '' @ error @ nl"
| "trendsEntry h period (TSuccess name downloads) =
     emojiPackage @ '' '' @ name @ nl
     @ ''Total downloads: '' @ toLocaleString h downloads @ nl
     @ ''Average daily downloads: ''
     @ toLocaleString h (of_int (averageDaily period downloads)) @ nl @ nl"

fun trendsTotal :: "rat \<Rightarrow> trends_result \<Rightarrow> rat" where
  "trendsTotal acc (TSuccess name downloads) = acc + downloads"
| "trendsTotal acc (TFailure name error) = acc"

definition trendsSummary :: "host \<Rightarrow> string \<Rightarrow> rat \<Rightarrow> string" where
  "trendsSummary h period totalDownloads =
     ''Total downloads across all packages: '' @ toLocaleString h totalDownloads @ nl
     @ ''Average daily downloads across all packages: ''
     @ toLocaleString h (of_int (averageDaily period totalDownloads)) @ nl"

definition trendsReport :: "host \<Rightarrow> string \<Rightarrow> trends_result list \<Rightarrow> string" where
  "trendsReport h period results =
     emojiChart @ '' Download Trends'' @ nl @ nl
     @ ''Period: '' @ period @ '' ('' @ Number_toString h (periodDays period) @ '' days)''
     @ nl @ nl
     @ concat (map (trendsEntry h period) results)
     @ trendsSummary h period (foldl trendsTotal 0 results)"

definition handleNpmTrends :: "host \<Rightarrow> network \<Rightarrow> string list \<Rightarrow> string option \<Rightarrow> outcome" where
  "handleNpmTrends h net packages periodArg =
     (let period = trendsPeriod periodArg;
          items = map (trendsItem net period) packages
      in (concat (map fst items),
          case promiseAll (map snd items) of
            Inl error \<Rightarrow>
              Inr \<lparr>content = [''Error fetching download trends: '' @ asErrorMessage error],
                   isError = True\<rparr>
          | Inr results \<Rightarrow>
              Inr \<lparr>content = [trendsReport h period results], isError = False\<rparr>))"

section \<open>The tool registry\<close>

text \<open>
  The registrations of \<^verbatim>\<open>src/index.ts\<close> (\<^verbatim>\<open>server.tool(name, description, shape, callback)\<close>):
  each tool has a name and the shape of its arguments. Four shapes occur: a list of package
  names; a list of at least one package name; a list of package names with an optional
  period that defaults to \<^verbatim>\<open>last-month\<close>; a query with an optional limit from 1 to 50.
\<close>

datatype schema = Packages | PackagesNonEmpty | PackagesPeriod | QueryLimit

datatype tool_args =
    PackagesArgs "string list"
  | TrendsArgs "string list" string
  | SearchArgs string "rat option"

record ToolDescriptor =
  td_name :: string
  td_inputSchema :: schema

definition registry :: "ToolDescriptor list" where
  "registry =
     [\<lparr>td_name = ''npmVersions'', td_inputSchema = Packages\<rparr>,
      \<lparr>td_name = ''npmLatest'', td_inputSchema = Packages\<rparr>,
      \<lparr>td_name = ''npmDeps'', td_inputSchema = Packages\<rparr>,
      \<lparr>td_name = ''npmTypes'', td_inputSchema = Packages\<rparr>,
      \<lparr>td_name = ''npmSize'', td_inputSchema = Packages\<rparr>,
      \<lparr>td_name = ''npmVulnerabilities'', td_inputSchema = Packages\<rparr>,
      \<lparr>td_name = ''npmTrends'', td_inputSchema = PackagesPeriod\<rparr>,
      \<lparr>td_name = ''npmCompare'', td_inputSchema = Packages\<rparr>,
      \<lparr>td_name = ''npmMaintainers'', td_inputSchema = Packages\<rparr>,
      \<lparr>td_name = ''npmScore'', td_inputSchema = Packages\<rparr>,
      \<lparr>td_name = ''npmPackageReadme'', td_inputSchema = Packages\<rparr>,
      \<lparr>td_name = ''npmSearch'', td_inputSchema = QueryLimit\<rparr>,
      \<lparr>td_name = ''npmLicenseCompatibility'', td_inputSchema = PackagesNonEmpty\<rparr>,
      \<lparr>td_name = ''npmRepoStats'', td_inputSchema = Packages\<rparr>,
      \<lparr>td_name = ''npmDeprecated'', td_inputSchema = Packages\<rparr>,
      \<lparr>td_name = ''npmChangelogAnalysis'', td_inputSchema = Packages\<rparr>,
      \<lparr>td_name = ''npmAlternatives'', td_inputSchema = Packages\<rparr>,
      \<lparr>td_name = ''npmQuality'', td_inputSchema = Packages\<rparr>,
      \<lparr>td_name = ''npmMaintenance'', td_inputSchema = Packages\<rparr>]"

fun zArrayOfStrings :: "jsval \<Rightarrow> string list option" where
  "zArrayOfStrings (Some (JArr vs)) = zStrings vs"
| "zArrayOfStrings v = None"

fun zPeriod :: "jsval \<Rightarrow> string option" where
  "zPeriod None = Some ''last-month''"
| "zPeriod (Some (JStr s)) =
     (if s \<in> set [''last-week'', ''last-month'', ''last-year''] then Some s else None)"
| "zPeriod v = None"

fun zLimit :: "jsval \<Rightarrow> rat option option" where
  "zLimit None = Some None"
| "zLimit (Some (JNum r)) = (if 1 \<le> r \<and> r \<le> 50 then Some (Some r) else None)"
| "zLimit v = None"

text \<open>The arguments as the declared shape parses them; \<open>None\<close> when they do not satisfy it.\<close>

fun validate :: "schema \<Rightarrow> jsval \<Rightarrow> tool_args option" where
  "validate Packages (Some (JObj kvs)) =
     map_option PackagesArgs (zArrayOfStrings (map_of kvs ''packages''))"
| "validate PackagesNonEmpty (Some (JObj kvs)) =
     (case zArrayOfStrings (map_of kvs ''packages'') of
        Some ps \<Rightarrow> if 1 \<le> length ps then Some (PackagesArgs ps) else None
      | None \<Rightarrow> None)"
| "validate PackagesPeriod (Some (JObj kvs)) =
     (case (zArrayOfStrings (map_of kvs ''packages''), zPeriod (map_of kvs ''period'')) of
        (Some ps, Some p) \<Rightarrow> Some (TrendsArgs ps p)
      | _ \<Rightarrow> None)"
| "validate QueryLimit (Some (JObj kvs)) =
     (case (zString (map_of kvs ''query''), zLimit (map_of kvs ''limit'')) of
        (Some q, Some l) \<Rightarrow> Some (SearchArgs q l)
      | _ \<Rightarrow> None)"
| "validate s v = None"

datatype dispatch_error = UnknownTool | SchemaMismatch

text \<open>
  An invocation: the handler of the named tool is called with the parsed arguments.
\<close>

datatype invocation = Invoke string tool_args

text \<open>
  Modelled from the spec: \<^verbatim>\<open>dispatch(name, args) -> Result\<close> of the tool registry. The
  sources register the tools and leave the lookup of the name, the validation of the
  arguments and the call of the handler to the protocol library, which is not among them.
  In the spec's words, \<open>dispatch\<close> fails with \<open>UnknownTool\<close> if the name is absent, and
  fails with \<open>SchemaMismatch\<close> if the arguments do not satisfy the declared schema, before
  invoking the handler.
\<close>

definition dispatch :: "string \<Rightarrow> jsval \<Rightarrow> dispatch_error + invocation" where
  "dispatch name args =
     (case find (\<lambda>t. td_name t = name) registry of
        None \<Rightarrow> Inl UnknownTool
      | Some t \<Rightarrow>
          (case validate (td_inputSchema t) args of
             None \<Rightarrow> Inl SchemaMismatch
           | Some a \<Rightarrow> Inr (Invoke (td_name t) a)))"

text \<open>
  The callbacks the registrations bind to the names, for the handlers above:
  \<^verbatim>\<open>async (args) => handleNpmVersions(args)\<close> and its like.
\<close>

fun callHandler :: "host \<Rightarrow> network \<Rightarrow> invocation \<Rightarrow> outcome option" where
  "callHandler h net (Invoke name (PackagesArgs ps)) =
     (if name = ''npmVersions'' then Some (handleNpmVersions h net ps)
      else if name = ''npmLatest'' then Some (handleNpmLatest h net ps)
      else if name = ''npmDeps'' then Some (handleNpmDeps net ps)
      else if name = ''npmTypes'' then Some (handleNpmTypes h net ps)
      else if name = ''npmCompare'' then Some (handleNpmCompare h net ps)
      else if name = ''npmPackageReadme'' then Some (handleNpmPackageReadme h net ps)
      else None)"
| "callHandler h net (Invoke name (TrendsArgs ps p)) =
     (if name = ''npmTrends'' then Some (handleNpmTrends h net ps (Some p)) else None)"
| "callHandler h net (Invoke name (SearchArgs q l)) =
     (if name = ''npmSearch'' then Some (handleNpmSearch h net q l) else None)"

section \<open>An upstream for the examples\<close>

definition exampleHost :: host where
  "exampleHost =
     \<lparr>numberToString = (\<lambda>r. ''#''), toLocaleString = (\<lambda>r. digits (nat \<lfloor>r\<rfloor>)),
      toFixed = (\<lambda>n r. ''#''), inheritedKey = (\<lambda>v k. False)\<rparr>"

definition jsonResponse :: "nat \<Rightarrow> string \<Rightarrow> json \<Rightarrow> thrown + response" where
  "jsonResponse s t j = Inr \<lparr>status = s, statusText = t, json_body = Inr j\<rparr>"

text \<open>
  Package \<^verbatim>\<open>a\<close> exists, has download counts and is found by the search for \<^verbatim>\<open>a b\<close>;
  package \<^verbatim>\<open>odd\<close> exists with an object carrying a \<^verbatim>\<open>toString\<close> key where a string is
  expected; the registry answers \<^verbatim>\<open>null\<close> for \<^verbatim>\<open>nil\<close>; every other URL is answered 404.
\<close>

definition exampleNet :: network where
  "exampleNet r =
     (if url r = ''https://registry.npmjs.org/a'' then
        jsonResponse 200 ''OK''
          (JObj [(''name'', JStr ''a''),
                 (''dist-tags'', JObj [(''latest'', JStr ''1.1.0'')]),
                 (''versions'', JObj [(''1.0.0'', JObj []), (''1.1.0'', JObj [])])])
      else if url r = ''https://registry.npmjs.org/a/latest'' then
        jsonResponse 200 ''OK''
          (JObj [(''name'', JStr ''a''), (''version'', JStr ''1.1.0''),
                 (''license'', JStr ''MIT'')])
      else if url r = ''https://registry.npmjs.org/odd'' then
        jsonResponse 200 ''OK''
          (JObj [(''name'', JStr ''odd''),
                 (''dist-tags'', JObj [(''latest'', JObj [(''toString'', JNum 1)])]),
                 (''versions'', JObj [])])
      else if url r = ''https://registry.npmjs.org/odd/latest'' then
        jsonResponse 200 ''OK''
          (JObj [(''name'', JStr ''odd''), (''version'', JStr ''1.0.0''),
                 (''license'', JObj [(''type'', JStr ''MIT''), (''toString'', JNum 1)])])
      else if url r = ''https://registry.npmjs.org/nil'' then
        jsonResponse 200 ''OK'' JNull
      else if url r = ''https://registry.npmjs.org/nil/latest'' then
        jsonResponse 200 ''OK'' JNull
      else if url r = ''https://api.npmjs.org/downloads/point/last-month/a'' then
        jsonResponse 200 ''OK''
          (JObj [(''downloads'', JNum 3000), (''start'', JStr ''2025-01-01''),
                 (''end'', JStr ''2025-01-30''), (''package'', JStr ''a'')])
      else if url r = ''https://api.npmjs.org/downloads/point/last-week/a'' then
        jsonResponse 200 ''OK''
          (JObj [(''downloads'', JNum 705), (''start'', JStr ''2025-01-24''),
                 (''end'', JStr ''2025-01-30''), (''package'', JStr ''a'')])
      else if url r = ''https://registry.npmjs.org/-/v1/search?text=a%20b&size=10'' then
        jsonResponse 200 ''OK''
          (JObj [(''objects'',
                  JArr [JObj [(''package'',
                               JObj [(''name'', JStr ''a''), (''version'', JStr ''1.1.0'')]),
                              (''score'',
                               JObj [(''final'', JNum 1),
                                     (''detail'',
                                      JObj [(''quality'', JNum 1), (''popularity'', JNum 1),
                                            (''maintenance'', JNum 1)])]),
                              (''searchScore'', JNum 1)]]),
                 (''total'', JNum 1)])
      else jsonResponse 404 ''Not Found'' (JObj [(''error'', JStr ''Not found'')]))"

section \<open>Sequencing\<close>

lemma andThen_Inl [simp]: "andThen (Inl e) f = Inl e"
  by (simp add: andThen_def)

lemma andThen_Inr [simp]: "andThen (Inr x) f = f x"
  by (simp add: andThen_def)

lemma andThen_eq_Inr: "andThen m f = Inr y \<longleftrightarrow> (\<exists>x. m = Inr x \<and> f x = Inr y)"
  by (cases m) simp_all

lemma mapM_length: "mapM f xs = Inr ys \<Longrightarrow> length ys = length xs"
  by (induction xs arbitrary: ys) (auto split: sum.splits)

lemma mapM_nth: "mapM f xs = Inr ys \<Longrightarrow> i < length xs \<Longrightarrow> f (xs ! i) = Inr (ys ! i)"
  by (induction xs arbitrary: ys i) (auto split: sum.splits nat.splits simp: nth_Cons)

lemma mapM_map: "mapM f (map g xs) = mapM (\<lambda>x. f (g x)) xs"
  by (induction xs) (simp_all split: sum.splits)


lemma mapM_Inr_iff: "(\<exists>ys. mapM f xs = Inr ys) \<longleftrightarrow> (\<forall>x \<in> set xs. \<exists>y. f x = Inr y)"
  by (induction xs) (auto split: sum.splits)



lemma promiseAll_rejects: "Inl e \<in> set ps \<Longrightarrow> \<exists>e'. promiseAll ps = Inl e'"
  unfolding promiseAll_def
  by (induction ps) (auto split: sum.splits)

lemma length_concat_const:
  "(\<And>x. x \<in> set xs \<Longrightarrow> length (f x) = k) \<Longrightarrow> length (concat (map f xs)) = k * length xs"
  by (induction xs) simp_all

section \<open>handleNpmVersions and handleNpmLatest: requests, entries, failures\<close>

lemma handleNpmVersions_requests:
  "fst (handleNpmVersions h net pkgs) = map versionsRequest pkgs"
  by (induction pkgs) (auto simp: handleNpmVersions_def Let_def versionsItem_def)

lemma handleNpmVersions_content:
  "snd (handleNpmVersions h net pkgs) = Inr r \<Longrightarrow>
   mapM (\<lambda>p. versionsText h (snd (versionsItem net p))) pkgs = Inr (content r)"
  by (auto simp: handleNpmVersions_def Let_def andThen_eq_Inr mapM_map comp_def)

lemma handleNpmVersions_response:
  assumes "snd (handleNpmVersions h net pkgs) = Inr r"
  shows "isError r = False" and "length (content r) = length pkgs"
  using assms
  by (auto simp: handleNpmVersions_def andThen_eq_Inr Let_def dest: mapM_length)

lemma handleNpmVersions_entry:
  assumes "snd (handleNpmVersions h net pkgs) = Inr r" and "i < length pkgs"
  shows "versionsText h (snd (versionsItem net (pkgs ! i))) = Inr (content r ! i)"
  using mapM_nth [OF handleNpmVersions_content [OF assms(1)] assms(2)] .


lemma versionsItem_failure:
  "versionsTry net p = Inl e \<Longrightarrow> snd (versionsItem net p) = VFailure p (errorMessage e)"
  by (simp add: versionsItem_def)




lemma versionsTry_shape:
  "net (versionsRequest p) = Inr resp \<Longrightarrow> ok resp \<Longrightarrow> json_body resp = Inr data \<Longrightarrow>
   \<not> isNpmPackageInfo data \<Longrightarrow>
   versionsTry net p = Inl (Error ''Invalid package info format'')"
  by (simp add: versionsTry_def)

lemma handleNpmVersions_failure_entry:
  assumes "snd (handleNpmVersions h net pkgs) = Inr r" and "i < length pkgs"
    and "versionsTry net (pkgs ! i) = Inl e"
  shows "content r ! i = emojiCross @ '' Error fetching '' @ pkgs ! i @ '': '' @ errorMessage e"
  using handleNpmVersions_entry [OF assms(1,2)] versionsItem_failure [OF assms(3)] by simp

text \<open>
  \<^verbatim>\<open>handleNpmVersions\<close> returns a response exactly when every entry renders; the entry that
  does not render is that of a success whose \<^verbatim>\<open>latest\<close> has no string conversion. When every
  package fails, the handler returns one failure entry per package and no error flag.
\<close>

lemma handleNpmVersions_returns_iff:
  "(\<exists>r. snd (handleNpmVersions h net pkgs) = Inr r)
   \<longleftrightarrow> (\<forall>p \<in> set pkgs. \<exists>t. versionsText h (snd (versionsItem net p)) = Inr t)"
proof -
  have "(\<exists>r. snd (handleNpmVersions h net pkgs) = Inr r)
        \<longleftrightarrow> (\<exists>ts. mapM (\<lambda>p. versionsText h (snd (versionsItem net p))) pkgs = Inr ts)"
    by (auto simp: handleNpmVersions_def Let_def andThen_eq_Inr mapM_map comp_def)
  then show ?thesis by (simp add: mapM_Inr_iff)
qed

lemma versionsText_throws:
  "versionsText h res = Inl e
   \<longleftrightarrow> (\<exists>n vs l. res = VSuccess n vs l \<and> ToStringV h l = Inl e)"
  by (cases res) (auto simp: andThen_def split: sum.splits)

lemma handleNpmVersions_all_fail:
  assumes "\<And>p. p \<in> set pkgs \<Longrightarrow> \<exists>e. versionsTry net p = Inl e"
  shows "\<exists>r. snd (handleNpmVersions h net pkgs) = Inr r \<and> isError r = False
             \<and> length (content r) = length pkgs"
proof -
  have "\<forall>p \<in> set pkgs. \<exists>t. versionsText h (snd (versionsItem net p)) = Inr t"
  proof
    fix p assume "p \<in> set pkgs"
    from assms [OF this] obtain e where "versionsTry net p = Inl e" by blast
    then show "\<exists>t. versionsText h (snd (versionsItem net p)) = Inr t"
      by (simp add: versionsItem_failure)
  qed
  then obtain r where r: "snd (handleNpmVersions h net pkgs) = Inr r"
    using handleNpmVersions_returns_iff by blast
  with handleNpmVersions_response [OF r] show ?thesis by blast
qed

lemma handleNpmLatest_requests:
  "fst (handleNpmLatest h net pkgs) = map latestRequest pkgs"
  by (induction pkgs) (auto simp: handleNpmLatest_def Let_def latestItem_def)

lemma handleNpmLatest_response:
  assumes "snd (handleNpmLatest h net pkgs) = Inr r"
  shows "isError r = False" and "length (content r) = length pkgs"
  using assms
  by (auto simp: handleNpmLatest_def andThen_eq_Inr Let_def dest: mapM_length)

lemma handleNpmLatest_returns_iff:
  "(\<exists>r. snd (handleNpmLatest h net pkgs) = Inr r)
   \<longleftrightarrow> (\<forall>p \<in> set pkgs. \<exists>t. latestText h (snd (latestItem net p)) = Inr t)"
proof -
  have "(\<exists>r. snd (handleNpmLatest h net pkgs) = Inr r)
        \<longleftrightarrow> (\<exists>ts. mapM (\<lambda>p. latestText h (snd (latestItem net p))) pkgs = Inr ts)"
    by (auto simp: handleNpmLatest_def Let_def andThen_eq_Inr mapM_map comp_def)
  then show ?thesis by (simp add: mapM_Inr_iff)
qed

lemma handleNpmLatest_all_fail:
  assumes "\<And>p. p \<in> set pkgs \<Longrightarrow> \<exists>e. latestTry net p = Inl e"
  shows "\<exists>r. snd (handleNpmLatest h net pkgs) = Inr r \<and> isError r = False
             \<and> length (content r) = length pkgs"
proof -
  have "\<forall>p \<in> set pkgs. \<exists>t. latestText h (snd (latestItem net p)) = Inr t"
  proof
    fix p assume "p \<in> set pkgs"
    from assms [OF this] obtain e where "latestTry net p = Inl e" by blast
    then show "\<exists>t. latestText h (snd (latestItem net p)) = Inr t"
      by (simp add: latestItem_def)
  qed
  then obtain r where r: "snd (handleNpmLatest h net pkgs) = Inr r"
    using handleNpmLatest_returns_iff by blast
  with handleNpmLatest_response [OF r] show ?thesis by blast
qed

section \<open>handleNpmDeps, handleNpmTypes, handleNpmCompare, handleNpmPackageReadme\<close>







lemma handleNpmTypes_requests:
  "fst (handleNpmTypes h net pkgs)
   = concat (map (\<lambda>p. case typesFirst h net p of
                         Inl e \<Rightarrow> [latestRequest p]
                       | Inr tb \<Rightarrow> [latestRequest p, typesRequest p]) pkgs)"
proof -
  have "fst (typesItem h net p) = (case typesFirst h net p of
                         Inl e \<Rightarrow> [latestRequest p]
                       | Inr tb \<Rightarrow> [latestRequest p, typesRequest p])" for p
    by (simp add: typesItem_def split: sum.splits)
  then show ?thesis by (simp add: handleNpmTypes_def Let_def comp_def)
qed

lemma handleNpmTypes_request_count:
  "length pkgs \<le> length (fst (handleNpmTypes h net pkgs))
   \<and> length (fst (handleNpmTypes h net pkgs)) \<le> 2 * length pkgs"
  unfolding handleNpmTypes_requests
  by (induction pkgs) (auto split: sum.splits)

lemma handleNpmCompare_requests:
  "fst (handleNpmCompare h net pkgs)
   = concat (map (\<lambda>p. [compareInfoRequest p, compareDownloadsRequest p]) pkgs)"
  by (simp add: handleNpmCompare_def Let_def compareItem_def comp_def)

lemma readmeTry_shape:
  "net (readmeRequest p) = Inr resp \<Longrightarrow> ok resp \<Longrightarrow> json_body resp = Inr data \<Longrightarrow>
   \<not> isNpmPackageInfo data \<Longrightarrow>
   readmeTry h net p = Inl (Error ''Invalid package info data received'')"
  by (simp add: readmeTry_def)

lemma handleNpmPackageReadme_returns:
  "snd (handleNpmPackageReadme h net pkgs) =
     Inr (case andThen (promiseAll (map (readmeTry h net) pkgs)) (mapM (readmeSection h)) of
            Inl error \<Rightarrow>
              \<lparr>content = [''Error fetching READMEs: '' @ errorMessage error], isError = True\<rparr>
          | Inr sections \<Rightarrow>
              \<lparr>content = [join (nl @ nl @ rule80 @ nl @ nl) sections], isError = False\<rparr>)"
  by (simp add: handleNpmPackageReadme_def Let_def readmeItem_def comp_def split: sum.splits)

section \<open>handleNpmSearch and handleNpmTrends\<close>

lemma digits_10: "digits 10 = ''10''"
  by code_simp


lemma Number_toString_10: "Number_toString h 10 = ''10''"
  by (simp add: Number_toString_def digits_10)


lemma searchLimit_default: "l = None \<or> l = Some 0 \<Longrightarrow> searchLimit l = 10"
  by (auto simp: searchLimit_def)

lemma handleNpmSearch_returns:
  "snd (handleNpmSearch h net q l) =
     Inr (case searchTry h net q (searchLimit l) of
            Inl error \<Rightarrow>
              \<lparr>content = [''Error searching packages: '' @ errorMessage error], isError = True\<rparr>
          | Inr report \<Rightarrow> \<lparr>content = [report], isError = False\<rparr>)"
  by (simp add: handleNpmSearch_def Let_def split: sum.splits)

lemma searchTry_header:
  "searchTry h net q limit = Inr report \<Longrightarrow>
   \<exists>found entries. report = searchHeader h q found limit @ entries"
  by (auto simp: searchTry_def andThen_eq_Inr split: if_splits option.splits)






section \<open>The registry\<close>

lemma registry_distinct: "distinct (map td_name registry)"
  by (simp add: registry_def)

lemma find_distinct:
  "distinct (map f xs) \<Longrightarrow> t \<in> set xs \<Longrightarrow> find (\<lambda>x. f x = f t) xs = Some t"
  by (induction xs) (auto simp: image_iff)

section \<open>Claims\<close>




text \<open>
  C2. The claim: for every non-empty package list the response of \<^verbatim>\<open>handleNpmVersions\<close> and
  of \<^verbatim>\<open>handleNpmLatest\<close> has one entry per input package. The entries are rendered outside
  the per-item \<^verbatim>\<open>try\<close>, and the rendering interpolates fields of the manifest as the
  upstream sent them. For the two packages \<^verbatim>\<open>a\<close> and \<^verbatim>\<open>odd\<close>, where the manifest of \<^verbatim>\<open>odd\<close>
  carries a license object with a \<^verbatim>\<open>toString\<close> key, \<^verbatim>\<open>handleNpmLatest\<close> issues the two
  requests, both items succeed, and the handler throws instead of returning two entries.
  (Whenever a handler does return, the entries are as many as the packages:
  \<open>handleNpmVersions_response\<close>, \<open>handleNpmLatest_response\<close>.)
\<close>

theorem handleNpmLatest_no_entries:
  "handleNpmLatest exampleHost exampleNet [''a'', ''odd'']
   = ([latestRequest ''a'', latestRequest ''odd''],
      Inl (Error ''Cannot convert object to primitive value''))"
  by code_simp

text \<open>
  \<^verbatim>\<open>handleNpmVersions\<close> renders \<^verbatim>\<open>dist-tags.latest\<close> in the same way, and throws in the same
  way when the upstream sends such an object for it.
\<close>

lemma handleNpmVersions_no_entries:
  "handleNpmVersions exampleHost exampleNet [''a'', ''odd'']
   = ([versionsRequest ''a'', versionsRequest ''odd''],
      Inl (Error ''Cannot convert object to primitive value''))"
  by code_simp

text \<open>
  C3. The claim: every handler answers an empty package list with a single top-level error.
  \<^verbatim>\<open>handleNpmVersions\<close> has no guard for the empty list: it returns an empty report that is
  not marked as an error.
\<close>

theorem handleNpmVersions_empty_list:
  "handleNpmVersions exampleHost exampleNet []
   = ([], Inr \<lparr>content = [], isError = False\<rparr>)"
  by code_simp

text \<open>
  C3, as amended: \<^verbatim>\<open>handleNpmDeps\<close>, which has the guard, answers an empty package list
  with exactly one content entry, the message of its top-level error, marked as an error,
  and issues no request; \<^verbatim>\<open>handleNpmVersions\<close> and \<^verbatim>\<open>handleNpmLatest\<close>, which have no guard,
  answer it with an empty content list that is not marked as an error.
\<close>

theorem empty_package_list:
  "handleNpmDeps net []
     = ([], Inr \<lparr>content = [''Error fetching dependencies: No package names provided''],
                  isError = True\<rparr>)
   \<and> handleNpmVersions h net [] = ([], Inr \<lparr>content = [], isError = False\<rparr>)
   \<and> handleNpmLatest h net [] = ([], Inr \<lparr>content = [], isError = False\<rparr>)"
  by (simp add: handleNpmDeps_def handleNpmVersions_def handleNpmLatest_def)

theorem empty_package_list_witness:
  "handleNpmDeps exampleNet []
     = ([], Inr \<lparr>content = [''Error fetching dependencies: No package names provided''],
                  isError = True\<rparr>)"
  using empty_package_list [of exampleNet exampleHost] by simp

text \<open>
  C4. The claim: in every handler, an upstream payload that does not match the expected
  shape becomes a failure entry of its item and never a top-level error.
  \<^verbatim>\<open>handleNpmPackageReadme\<close> throws on such a payload and has no \<^verbatim>\<open>try\<close> around an item: for the
  packages \<^verbatim>\<open>a\<close> and \<^verbatim>\<open>nil\<close>, where the registry answers \<^verbatim>\<open>null\<close> for \<^verbatim>\<open>nil\<close>, the response is one
  top-level error.
\<close>

theorem handleNpmPackageReadme_shape_mismatch:
  "handleNpmPackageReadme exampleHost exampleNet [''a'', ''nil'']
   = ([readmeRequest ''a'', readmeRequest ''nil''],
      Inr \<lparr>content = [''Error fetching READMEs: Invalid package info data received''],
           isError = True\<rparr>)"
  by code_simp

text \<open>
  C4, as amended. A payload that fails the handlers' check \<^verbatim>\<open>isNpmPackageInfo\<close>: in every
  response that \<^verbatim>\<open>handleNpmVersions\<close> returns, the item has the failure entry with the
  reason \<^verbatim>\<open>Invalid package info format\<close> and the response is not marked as an error;
  \<^verbatim>\<open>handleNpmPackageReadme\<close> answers the whole call with a single top-level error, which
  for that package alone is
  \<^verbatim>\<open>Error fetching READMEs: Invalid package info data received\<close>.
\<close>

theorem shape_mismatch:
  assumes "i < length pkgs" and "ok resp" and "json_body resp = Inr data"
    and "\<not> isNpmPackageInfo data"
  shows "(net (versionsRequest (pkgs ! i)) = Inr resp \<longrightarrow>
           (\<forall>r. snd (handleNpmVersions h net pkgs) = Inr r \<longrightarrow>
              isError r = False
              \<and> content r ! i
                  = emojiCross @ '' Error fetching '' @ pkgs ! i @ '': ''
                    @ ''Invalid package info format''))
       \<and> (net (readmeRequest (pkgs ! i)) = Inr resp \<longrightarrow>
           (\<exists>msg. snd (handleNpmPackageReadme h net pkgs)
                    = Inr \<lparr>content = [''Error fetching READMEs: '' @ msg], isError = True\<rparr>))
       \<and> (net (readmeRequest (pkgs ! i)) = Inr resp \<longrightarrow>
           snd (handleNpmPackageReadme h net [pkgs ! i])
             = Inr \<lparr>content = [''Error fetching READMEs: ''
                                @ ''Invalid package info data received''],
                    isError = True\<rparr>)"
proof -
  have 1: "net (versionsRequest (pkgs ! i)) = Inr resp \<longrightarrow>
           (\<forall>r. snd (handleNpmVersions h net pkgs) = Inr r \<longrightarrow>
              isError r = False
              \<and> content r ! i
                  = emojiCross @ '' Error fetching '' @ pkgs ! i @ '': ''
                    @ ''Invalid package info format'')"
  proof (intro impI allI)
    fix r
    assume n: "net (versionsRequest (pkgs ! i)) = Inr resp"
      and r: "snd (handleNpmVersions h net pkgs) = Inr r"
    from handleNpmVersions_failure_entry
           [OF r assms(1) versionsTry_shape [of net "pkgs ! i" resp data, OF n assms(2,3,4)]]
      handleNpmVersions_response(1) [OF r]
    show "isError r = False
              \<and> content r ! i
                  = emojiCross @ '' Error fetching '' @ pkgs ! i @ '': ''
                    @ ''Invalid package info format''"
      by simp
  qed
  have 2: "net (readmeRequest (pkgs ! i)) = Inr resp \<longrightarrow>
           (\<exists>msg. snd (handleNpmPackageReadme h net pkgs)
                    = Inr \<lparr>content = [''Error fetching READMEs: '' @ msg], isError = True\<rparr>)"
  proof
    assume n: "net (readmeRequest (pkgs ! i)) = Inr resp"
    have "Inl (Error ''Invalid package info data received'') \<in> set (map (readmeTry h net) pkgs)"
      using readmeTry_shape [of net "pkgs ! i" resp data h, OF n assms(2,3,4)] assms(1)
      by (metis length_map nth_map nth_mem)
    from promiseAll_rejects [OF this]
    obtain e where "promiseAll (map (readmeTry h net) pkgs) = Inl e" by blast
    then show "\<exists>msg. snd (handleNpmPackageReadme h net pkgs)
                    = Inr \<lparr>content = [''Error fetching READMEs: '' @ msg], isError = True\<rparr>"
      by (simp add: handleNpmPackageReadme_returns)
  qed
  have 3: "net (readmeRequest (pkgs ! i)) = Inr resp \<longrightarrow>
           snd (handleNpmPackageReadme h net [pkgs ! i])
             = Inr \<lparr>content = [''Error fetching READMEs: ''
                                @ ''Invalid package info data received''],
                    isError = True\<rparr>"
    using readmeTry_shape [of net "pkgs ! i" resp data h, OF _ assms(2,3,4)]
    by (simp add: handleNpmPackageReadme_returns promiseAll_def)
  from 1 2 3 show ?thesis by blast
qed

theorem shape_mismatch_witness:
  "snd (handleNpmVersions exampleHost exampleNet [''a'', ''nil''])
   = Inr \<lparr>content =
            [emojiPackage @ '' a:'' @ nl @ ''Latest version: 1.1.0'' @ nl
             @ ''Available versions: 1.0.0, 1.1.0'',
             emojiCross @ '' Error fetching nil: Invalid package info format''],
          isError = False\<rparr>
   \<and> snd (handleNpmPackageReadme exampleHost exampleNet [''nil''])
     = Inr \<lparr>content = [''Error fetching READMEs: Invalid package info data received''],
            isError = True\<rparr>"
proof -
  let ?resp = "\<lparr>status = 200, statusText = ''OK'', json_body = Inr JNull\<rparr>"
  have i: "(1::nat) < length [''a'', ''nil'']" and i0: "(0::nat) < length [''nil'']"
    by simp_all
  have k: "ok ?resp" by (simp add: ok_def)
  have b: "json_body ?resp = Inr JNull" by simp
  have g: "\<not> isNpmPackageInfo JNull" by simp
  have v: "exampleNet (versionsRequest ([''a'', ''nil''] ! 1)) = Inr ?resp" by code_simp
  have m: "exampleNet (readmeRequest ([''nil''] ! 0)) = Inr ?resp" by code_simp
  have r: "snd (handleNpmVersions exampleHost exampleNet [''a'', ''nil''])
   = Inr \<lparr>content =
            [emojiPackage @ '' a:'' @ nl @ ''Latest version: 1.1.0'' @ nl
             @ ''Available versions: 1.0.0, 1.1.0'',
             emojiCross @ '' Error fetching nil: Invalid package info format''],
          isError = False\<rparr>"
    by code_simp
  from shape_mismatch [OF i0 k b g, of exampleNet exampleHost] m
  have "snd (handleNpmPackageReadme exampleHost exampleNet [''nil''])
     = Inr \<lparr>content = [''Error fetching READMEs: Invalid package info data received''],
            isError = True\<rparr>"
    by simp
  with r show ?thesis by simp
qed




text \<open>
  C6. The claim: \<open>dispatch\<close> fails with \<open>UnknownTool\<close> when the name is not in the tool
  registry, fails with \<open>SchemaMismatch\<close>, without invoking the handler, when the arguments
  do not satisfy the declared input schema of the named tool, and invokes the handler only
  when the name is registered and the arguments validate. Here the registry holds the
  nineteen tools that \<^verbatim>\<open>src/index.ts\<close> registers, with their argument shapes, and an
  invocation is the call of the named tool's handler with the parsed arguments.
\<close>

theorem dispatch_checks:
  "(name \<notin> set (map td_name registry) \<longrightarrow> dispatch name args = Inl UnknownTool)
   \<and> (\<forall>t. t \<in> set registry \<and> td_name t = name \<and> validate (td_inputSchema t) args = None \<longrightarrow>
          dispatch name args = Inl SchemaMismatch)
   \<and> (\<forall>t a. t \<in> set registry \<and> td_name t = name \<and> validate (td_inputSchema t) args = Some a \<longrightarrow>
          dispatch name args = Inr (Invoke name a))
   \<and> (\<forall>inv. dispatch name args = Inr inv \<longrightarrow>
          (\<exists>t a. t \<in> set registry \<and> td_name t = name
                 \<and> validate (td_inputSchema t) args = Some a \<and> inv = Invoke name a))"
proof -
  have found: "find (\<lambda>x. td_name x = name) registry = Some t"
    if "t \<in> set registry" and "td_name t = name" for t
    using find_distinct [OF registry_distinct that(1)] that(2) by simp
  have 1: "name \<notin> set (map td_name registry) \<longrightarrow> dispatch name args = Inl UnknownTool"
  proof
    assume "name \<notin> set (map td_name registry)"
    then have "find (\<lambda>t. td_name t = name) registry = None"
      by (auto simp: find_None_iff)
    then show "dispatch name args = Inl UnknownTool" by (simp add: dispatch_def)
  qed
  have 2: "\<forall>t. t \<in> set registry \<and> td_name t = name \<and> validate (td_inputSchema t) args = None \<longrightarrow>
          dispatch name args = Inl SchemaMismatch"
    using found by (auto simp: dispatch_def)
  have 3: "\<forall>t a. t \<in> set registry \<and> td_name t = name
              \<and> validate (td_inputSchema t) args = Some a \<longrightarrow>
          dispatch name args = Inr (Invoke name a)"
    using found by (auto simp: dispatch_def)
  have 4: "\<forall>inv. dispatch name args = Inr inv \<longrightarrow>
          (\<exists>t a. t \<in> set registry \<and> td_name t = name
                 \<and> validate (td_inputSchema t) args = Some a \<and> inv = Invoke name a)"
  proof (intro allI impI)
    fix inv
    assume d: "dispatch name args = Inr inv"
    then obtain t where t: "find (\<lambda>t. td_name t = name) registry = Some t"
      by (auto simp: dispatch_def split: option.splits)
    then have "t \<in> set registry" and "td_name t = name"
      by (auto simp: find_Some_iff)
    moreover from d t obtain a
      where "validate (td_inputSchema t) args = Some a" and "inv = Invoke (td_name t) a"
      by (auto simp: dispatch_def split: option.splits)
    ultimately show "\<exists>t a. t \<in> set registry \<and> td_name t = name
                 \<and> validate (td_inputSchema t) args = Some a \<and> inv = Invoke name a"
      by blast
  qed
  from 1 2 3 4 show ?thesis by blast
qed

theorem dispatch_checks_witness:
  "dispatch ''npmSearchAll'' (Some (JObj [(''packages'', JArr [JStr ''a''])])) = Inl UnknownTool
   \<and> dispatch ''npmVersions'' (Some (JObj [(''packages'', JStr ''a'')])) = Inl SchemaMismatch
   \<and> dispatch ''npmVersions'' (Some (JObj [(''packages'', JArr [JStr ''a''])]))
     = Inr (Invoke ''npmVersions'' (PackagesArgs [''a'']))
   \<and> callHandler exampleHost exampleNet (Invoke ''npmVersions'' (PackagesArgs [''a'']))
     = Some (handleNpmVersions exampleHost exampleNet [''a''])"
proof -
  let ?t = "\<lparr>td_name = ''npmVersions'', td_inputSchema = Packages\<rparr>"
  have u: "''npmSearchAll'' \<notin> set (map td_name registry)" by (simp add: registry_def)
  have t: "?t \<in> set registry" by (simp add: registry_def)
  have bad: "validate (td_inputSchema ?t) (Some (JObj [(''packages'', JStr ''a'')])) = None"
    by simp
  have good: "validate (td_inputSchema ?t) (Some (JObj [(''packages'', JArr [JStr ''a''])]))
              = Some (PackagesArgs [''a''])"
    by simp
  from dispatch_checks [of "''npmSearchAll''" "Some (JObj [(''packages'', JArr [JStr ''a''])])"] u
  have 1: "dispatch ''npmSearchAll'' (Some (JObj [(''packages'', JArr [JStr ''a''])]))
           = Inl UnknownTool"
    by blast
  from dispatch_checks [of "''npmVersions''" "Some (JObj [(''packages'', JStr ''a'')])"] t bad
  have 2: "dispatch ''npmVersions'' (Some (JObj [(''packages'', JStr ''a'')])) = Inl SchemaMismatch"
    by (metis ToolDescriptor.select_convs(1))
  from dispatch_checks [of "''npmVersions''" "Some (JObj [(''packages'', JArr [JStr ''a''])])"]
    t good
  have 3: "dispatch ''npmVersions'' (Some (JObj [(''packages'', JArr [JStr ''a''])]))
     = Inr (Invoke ''npmVersions'' (PackagesArgs [''a'']))"
    by (metis ToolDescriptor.select_convs(1))
  from 1 2 3 show ?thesis by simp
qed

text \<open>
  C7. The claim: every handler issues exactly one request per input package.
  \<^verbatim>\<open>handleNpmCompare\<close> issues two requests for the one package \<^verbatim>\<open>a\<close>.
\<close>

theorem handleNpmCompare_two_requests:
  "fst (handleNpmCompare exampleHost exampleNet [''a''])
   = [compareInfoRequest ''a'', compareDownloadsRequest ''a'']
   \<and> length (fst (handleNpmCompare exampleHost exampleNet [''a''])) \<noteq> length [''a'']"
  by code_simp

text \<open>
  C7, as amended. Whatever the upstream answers, \<^verbatim>\<open>handleNpmVersions\<close> issues exactly one
  request per input package, the one for that package, and none again;
  \<^verbatim>\<open>handleNpmCompare\<close> issues exactly two requests per input package; \<^verbatim>\<open>handleNpmTypes\<close> issues
  one request for a package whose first part throws and two requests for every other
  package, between one and two per package in all.
\<close>

theorem requests_per_package:
  "fst (handleNpmVersions h net pkgs) = map versionsRequest pkgs
   \<and> length (fst (handleNpmVersions h net pkgs)) = length pkgs
   \<and> fst (handleNpmCompare h net pkgs)
       = concat (map (\<lambda>p. [compareInfoRequest p, compareDownloadsRequest p]) pkgs)
   \<and> length (fst (handleNpmCompare h net pkgs)) = 2 * length pkgs
   \<and> fst (handleNpmTypes h net pkgs)
       = concat (map (\<lambda>p. case typesFirst h net p of
                             Inl e \<Rightarrow> [latestRequest p]
                           | Inr tb \<Rightarrow> [latestRequest p, typesRequest p]) pkgs)
   \<and> length pkgs \<le> length (fst (handleNpmTypes h net pkgs))
   \<and> length (fst (handleNpmTypes h net pkgs)) \<le> 2 * length pkgs"
proof -
  have "length (fst (handleNpmCompare h net pkgs)) = 2 * length pkgs"
    unfolding handleNpmCompare_requests by (rule length_concat_const) simp
  then show ?thesis
    using handleNpmVersions_requests [of h net pkgs] handleNpmCompare_requests [of h net pkgs]
      handleNpmTypes_requests [of h net pkgs] handleNpmTypes_request_count [of pkgs h net]
    by simp
qed

theorem requests_per_package_witness:
  "fst (handleNpmVersions exampleHost exampleNet [''a'', ''b''])
     = [versionsRequest ''a'', versionsRequest ''b'']
   \<and> length (fst (handleNpmCompare exampleHost exampleNet [''a'', ''b''])) = 4
   \<and> length (fst (handleNpmTypes exampleHost exampleNet [''a'', ''b''])) = 3"
proof -
  have "length (fst (handleNpmTypes exampleHost exampleNet [''a'', ''b''])) = 3"
    by code_simp
  with requests_per_package [of exampleHost exampleNet "[''a'', ''b'']"]
  show ?thesis by simp
qed

text \<open>
  C8. The claim: \<^verbatim>\<open>handleNpmVersions\<close> and \<^verbatim>\<open>handleNpmLatest\<close> always return a response whose
  \<^verbatim>\<open>isError\<close> is false. For the package \<^verbatim>\<open>odd\<close>, whose manifest carries a license object with a
  \<^verbatim>\<open>toString\<close> key, \<^verbatim>\<open>handleNpmLatest\<close> returns no response: the interpolation of the license
  throws outside the per-item \<^verbatim>\<open>try\<close>. (Every response the two handlers do return has
  \<^verbatim>\<open>isError\<close> false, \<open>handleNpmVersions_response\<close> and \<open>handleNpmLatest_response\<close>, and when
  every package fails a response is returned, \<open>handleNpmVersions_all_fail\<close> and
  \<open>handleNpmLatest_all_fail\<close>.)
\<close>

theorem handleNpmLatest_no_response:
  "handleNpmLatest exampleHost exampleNet [''odd'']
   = ([latestRequest ''odd''], Inl (Error ''Cannot convert object to primitive value''))"
  by code_simp

text \<open>
  C9. The claim: when the limit of \<^verbatim>\<open>handleNpmSearch\<close> is omitted or is the falsy value 0,
  the one request of the handler asks for \<^verbatim>\<open>size=10\<close>, and the header of the report, when
  the search succeeds and a report is returned, says \<^verbatim>\<open>showing top 10\<close>. The handler always
  returns a response.
\<close>

theorem search_default_limit:
  assumes "limitArg = None \<or> limitArg = Some 0"
  shows "fst (handleNpmSearch h net query limitArg)
           = [\<lparr>url = ''https://registry.npmjs.org/-/v1/search?text=''
                      @ encodeURIComponent query @ ''&size=10'',
                headers = []\<rparr>]
       \<and> (\<exists>r. snd (handleNpmSearch h net query limitArg) = Inr r
              \<and> (isError r
                  \<or> (\<exists>found entries.
                        content r
                          = [emojiSearch @ '' Search results for '' @ dquote @ query @ dquote @ nl
                             @ ''Found '' @ toLocaleString h found
                             @ '' packages (showing top 10)'' @ nl @ nl
                             @ entries])))"
proof -
  have l: "searchLimit limitArg = 10" using assms by (rule searchLimit_default)
  have 1: "fst (handleNpmSearch h net query limitArg)
           = [\<lparr>url = ''https://registry.npmjs.org/-/v1/search?text=''
                      @ encodeURIComponent query @ ''&size=10'',
                headers = []\<rparr>]"
    by (simp add: handleNpmSearch_def Let_def l searchRequest_def Number_toString_10)
  have 2: "\<exists>r. snd (handleNpmSearch h net query limitArg) = Inr r
              \<and> (isError r
                  \<or> (\<exists>found entries.
                        content r
                          = [emojiSearch @ '' Search results for '' @ dquote @ query @ dquote @ nl
                             @ ''Found '' @ toLocaleString h found
                             @ '' packages (showing top 10)'' @ nl @ nl
                             @ entries]))"
  proof (cases "searchTry h net query 10")
    case (Inl e)
    then show ?thesis by (simp add: handleNpmSearch_returns l)
  next
    case (Inr report)
    from searchTry_header [OF Inr] obtain found entries
      where "report = searchHeader h query found 10 @ entries" by blast
    then have "report = emojiSearch @ '' Search results for '' @ dquote @ query @ dquote @ nl
                             @ ''Found '' @ toLocaleString h found
                             @ '' packages (showing top 10)'' @ nl @ nl
                             @ entries"
      by (simp add: searchHeader_def Number_toString_10)
    with Inr show ?thesis by (auto simp: handleNpmSearch_returns l)
  qed
  from 1 2 show ?thesis by blast
qed

theorem search_default_limit_witness:
  "handleNpmSearch exampleHost exampleNet ''a b'' (Some 0)
   = ([\<lparr>url = ''https://registry.npmjs.org/-/v1/search?text=a%20b&size=10'', headers = []\<rparr>],
      Inr \<lparr>content =
             [emojiSearch @ '' Search results for '' @ dquote @ ''a b'' @ dquote @ nl
              @ ''Found 1 packages (showing top 10)'' @ nl @ nl
              @ emojiPackage @ '' a@1.1.0'' @ nl @ ''Score: # (#%)'' @ nl @ nl],
           isError = False\<rparr>)"
proof -
  have e: "encodeURIComponent ''a b'' = ''a%20b''" by code_simp
  have s: "snd (handleNpmSearch exampleHost exampleNet ''a b'' (Some 0))
   = Inr \<lparr>content =
             [emojiSearch @ '' Search results for '' @ dquote @ ''a b'' @ dquote @ nl
              @ ''Found 1 packages (showing top 10)'' @ nl @ nl
              @ emojiPackage @ '' a@1.1.0'' @ nl @ ''Score: # (#%)'' @ nl @ nl],
           isError = False\<rparr>"
    by code_simp
  have "Some (0::rat) = None \<or> Some (0::rat) = Some 0" by simp
  from search_default_limit [OF this, of exampleHost exampleNet "''a b''"] e
  have "fst (handleNpmSearch exampleHost exampleNet ''a b'' (Some 0))
        = [\<lparr>url = ''https://registry.npmjs.org/-/v1/search?text=a%20b&size=10'', headers = []\<rparr>]"
    by simp
  with s show ?thesis by (simp add: prod_eq_iff)
qed



end
